theory Spec2Isabelle
  imports Main
begin

section \<open>Python text and slicing\<close>

text \<open>
  A Python \<open>str\<close> is modelled as a \<open>string\<close>, one \<open>char\<close> per character of the text, so
  that \<open>length\<close> is Python's \<open>len\<close>. The model covers the characters that fit a \<open>char\<close>,
  the code points below 256; case folding and white space are Python's on that range.
\<close>

abbreviation NL :: char where
  "NL \<equiv> CHR 0x0A"

text \<open>
  \<open>str.lower()\<close>: the letters \<open>A\<close> to \<open>Z\<close> and the capital letters \<open>0xC0\<close> to \<open>0xDE\<close>
  (the multiplication sign \<open>0xD7\<close> is none) are moved up by 32.
\<close>

definition lower_char :: "char \<Rightarrow> char" where
  "lower_char c =
     (let n = (of_char c :: nat)
      in if (65 \<le> n \<and> n \<le> 90) \<or> (192 \<le> n \<and> n \<le> 222 \<and> n \<noteq> 215)
         then char_of (n + 32) else c)"

definition lower :: "string \<Rightarrow> string" where
  "lower s = map lower_char s"

text \<open>
  \<open>str.isspace\<close> on one character: tab, line feed, vertical tab, form feed, carriage
  return, the four separators \<open>0x1C\<close> to \<open>0x1F\<close>, the blank, next line \<open>0x85\<close> and the
  no-break space \<open>0xA0\<close>.
\<close>

definition is_space :: "char \<Rightarrow> bool" where
  "is_space c =
     (let n = (of_char c :: nat)
      in (9 \<le> n \<and> n \<le> 13) \<or> (28 \<le> n \<and> n \<le> 31) \<or> n = 32 \<or> n = 133 \<or> n = 160)"

text \<open>\<open>str.strip()\<close> without argument: white space is removed at both ends.\<close>

definition strip :: "string \<Rightarrow> string" where
  "strip s = rev (dropWhile is_space (rev (dropWhile is_space s)))"

text \<open>\<open>str.replace(old, new)\<close> for one-character \<open>old\<close> and \<open>new\<close>.\<close>

definition replace_char :: "char \<Rightarrow> char \<Rightarrow> string \<Rightarrow> string" where
  "replace_char old new s = map (\<lambda>c. if c = old then new else c) s"

text \<open>\<open>kw in s\<close> on strings: \<open>kw\<close> occurs in \<open>s\<close> as a contiguous piece.\<close>

fun starts_with :: "'a list \<Rightarrow> 'a list \<Rightarrow> bool" where
  "starts_with s [] = True"
| "starts_with [] (k # ks) = False"
| "starts_with (c # cs) (k # ks) = (c = k \<and> starts_with cs ks)"

fun py_in :: "'a list \<Rightarrow> 'a list \<Rightarrow> bool" where
  "py_in kw [] = (kw = [])"
| "py_in kw (c # cs) = (starts_with (c # cs) kw \<or> py_in kw cs)"

text \<open>
  The slice \<open>xs[i:]\<close>: a negative start counts from the end and is clamped at the
  beginning, a start beyond the end gives the empty list. \<open>-0\<close> is \<open>0\<close>.
\<close>

definition slice_from :: "int \<Rightarrow> 'a list \<Rightarrow> 'a list" where
  "slice_from i xs =
     (let n = int (length xs);
          start = (if i < 0 then max 0 (i + n) else min i n)
      in drop (nat start) xs)"

text \<open>The slice \<open>s[:k]\<close> for a constant \<open>k \<ge> 0\<close>.\<close>

definition slice_to :: "nat \<Rightarrow> 'a list \<Rightarrow> 'a list" where
  "slice_to k xs = take k xs"


section \<open>Session state\<close>

text \<open>
  The values kept in a role's state dictionary: a flag, a text, or the coordinator's
  \<open>last_routing\<close> dictionary (input type, has image, agents used, processing mode).
\<close>

datatype val =
    VBool bool
  | VStr string
  | VRouting string bool "string list" string

text \<open>An image handle: a decoded image, a file-like object that can be read, or anything else.\<close>

datatype image = PILImage nat | FileLike nat | OtherImage nat

record interaction =
  timestamp :: string
  user_input :: string
  agent_response :: string
  agent_type :: string
  has_image :: bool

record uploaded =
  up_timestamp :: string
  up_image :: image

text \<open>
  What a turn does that can be seen from outside the session state: a line written to the
  page, the entry into a role's \<open>process\<close> with its two arguments, and a call of the
  client. The list is kept oldest first and no result depends on the role entries.
\<close>

datatype event =
    StWrite string
  | TextProcess string "image option"
  | VisionProcess string "image option"
  | GenerateText string string
  | GenerateVision string image string

text \<open>The calls of the client among the events.\<close>

definition is_client_call :: "event \<Rightarrow> bool" where
  "is_client_call ev =
     (case ev of GenerateText _ _ \<Rightarrow> True | GenerateVision _ _ _ \<Rightarrow> True | _ \<Rightarrow> False)"

definition client_calls :: "event list \<Rightarrow> event list" where
  "client_calls evs = filter is_client_call evs"

text \<open>\<open>st.session_state\<close>, with the events so far.\<close>

record session =
  conversation_history :: "interaction list"
  current_context :: string
  uploaded_images :: "uploaded list"
  agent_states :: "string \<rightharpoonup> (string \<rightharpoonup> val)"
  events :: "event list"

definition emit :: "event \<Rightarrow> session \<Rightarrow> session" where
  "emit e s = s\<lparr>events := events s @ [e]\<rparr>"

text \<open>\<open>initialize_session_state\<close> on a fresh session.\<close>

definition initial_agent_states :: "string \<rightharpoonup> (string \<rightharpoonup> val)" where
  "initial_agent_states =
     [''text_agent'' \<mapsto> [''active'' \<mapsto> VBool True, ''last_response'' \<mapsto> VStr ''''],
      ''vision_agent'' \<mapsto> [''active'' \<mapsto> VBool True, ''last_response'' \<mapsto> VStr ''''],
      ''coordinator'' \<mapsto> [''active'' \<mapsto> VBool True, ''last_decision'' \<mapsto> VStr '''']]"

definition initialize_session_state :: session where
  "initialize_session_state =
     \<lparr>conversation_history = [], current_context = '''', uploaded_images = [],
      agent_states = initial_agent_states, events = []\<rparr>"

text \<open>\<open>add_to_history\<close>; the time stamp is what the clock gives at the call.\<close>

definition add_to_history ::
  "string \<Rightarrow> string \<Rightarrow> string \<Rightarrow> string \<Rightarrow> image option \<Rightarrow> session \<Rightarrow> session" where
  "add_to_history now user_text response atype image_data s =
     s\<lparr>conversation_history := conversation_history s @
         [\<lparr>timestamp = now, user_input = user_text, agent_response = response,
           agent_type = atype, has_image = (image_data \<noteq> None)\<rparr>]\<rparr>"

text \<open>\<open>update_context\<close>: append with a line feed, then keep the last 1000 characters.\<close>

definition update_context :: "string \<Rightarrow> session \<Rightarrow> session" where
  "update_context new_context s =
     (let c = (if current_context s \<noteq> [] then current_context s @ NL # new_context
               else new_context)
      in s\<lparr>current_context := (if length c > 1000 then slice_from (- 1000) c else c)\<rparr>)"

definition get_context :: "session \<Rightarrow> string" where
  "get_context s = current_context s"

text \<open>\<open>get_recent_history\<close>: \<open>history[-limit:]\<close> when the history is not empty.\<close>

definition get_recent_history :: "int \<Rightarrow> session \<Rightarrow> interaction list" where
  "get_recent_history limit s =
     (if conversation_history s \<noteq> [] then slice_from (- limit) (conversation_history s)
      else [])"

definition clear_history :: "session \<Rightarrow> session" where
  "clear_history s = s\<lparr>conversation_history := [], current_context := '''', uploaded_images := []\<rparr>"

text \<open>\<open>update_agent_state\<close>: \<open>dict.update\<close> on the entry of a known name, nothing otherwise.\<close>

definition update_agent_state :: "string \<Rightarrow> (string \<rightharpoonup> val) \<Rightarrow> session \<Rightarrow> session" where
  "update_agent_state agent_name state_data s =
     (case agent_states s agent_name of
        Some d \<Rightarrow> s\<lparr>agent_states := (agent_states s)(agent_name \<mapsto> d ++ state_data)\<rparr>
      | None \<Rightarrow> s)"

text \<open>\<open>get_agent_state\<close>: \<open>dict.get(agent_name, {})\<close>.\<close>

definition get_agent_state :: "string \<Rightarrow> session \<Rightarrow> (string \<rightharpoonup> val)" where
  "get_agent_state agent_name s =
     (case agent_states s agent_name of Some d \<Rightarrow> d | None \<Rightarrow> Map.empty)"

definition add_uploaded_image :: "string \<Rightarrow> image \<Rightarrow> session \<Rightarrow> session" where
  "add_uploaded_image now image_data s =
     s\<lparr>uploaded_images := uploaded_images s @ [\<lparr>up_timestamp = now, up_image = image_data\<rparr>]\<rparr>"

text \<open>\<open>get_latest_image\<close>: the image of the last upload, \<open>None\<close> when there is none.\<close>

definition get_latest_image :: "session \<Rightarrow> image option" where
  "get_latest_image s =
     (if uploaded_images s \<noteq> [] then Some (up_image (last (uploaded_images s))) else None)"


section \<open>The client and the image library\<close>

text \<open>
  The agents are written against a client with two entry points and against
  \<open>Image.open\<close>. Each may raise: \<open>Inl msg\<close> is an exception whose \<open>str\<close> is \<open>msg\<close>,
  \<open>Inr\<close> the value returned. An entry point of the client is given the calls of the
  client made so far, so that its answers may differ from call to call.
\<close>

record env =
  generate_text_response :: "event list \<Rightarrow> string \<Rightarrow> string \<Rightarrow> string + string"
  generate_vision_response :: "event list \<Rightarrow> string \<Rightarrow> image \<Rightarrow> string \<Rightarrow> string + string"
  image_open :: "nat \<Rightarrow> string + nat"


section \<open>BaseAgent\<close>

text \<open>The key under which an agent stores its state: \<open>name.lower().replace(' ', '_')\<close>.\<close>

definition state_key :: "string \<Rightarrow> string" where
  "state_key name = replace_char CHR '' '' CHR ''_'' (lower name)"

definition update_state :: "string \<Rightarrow> (string \<rightharpoonup> val) \<Rightarrow> session \<Rightarrow> session" where
  "update_state name state_data s = update_agent_state (state_key name) state_data s"

definition get_state :: "string \<Rightarrow> session \<Rightarrow> (string \<rightharpoonup> val)" where
  "get_state name s = get_agent_state (state_key name) s"

text \<open>
  The robot face that opens the first line of \<open>log_action\<close>. It fits no \<open>char\<close> and is
  written as its four UTF-8 units.
\<close>

definition robot :: string where
  "robot = [CHR 0xF0, CHR 0x9F, CHR 0xA4, CHR 0x96]"

text \<open>\<open>log_action\<close>: one line on the page, and a second one when there are details.\<close>

definition log_action :: "string \<Rightarrow> string \<Rightarrow> string \<Rightarrow> session \<Rightarrow> session" where
  "log_action name action details s =
     (let s1 = emit (StWrite (robot @ '' **'' @ name @ ''**: '' @ action)) s
      in if details \<noteq> [] then emit (StWrite (''   *'' @ details @ ''*'')) s1 else s1)"


section \<open>TextAgent\<close>

definition text_agent_name :: string where
  "text_agent_name = ''Text Agent''"

definition text_base_instruction :: string where
  "text_base_instruction =
     ''You are a helpful AI assistant specializing in text-based interactions. '' @ NL #
     ''        Provide clear, accurate, and contextually relevant responses. If you need more information to give a better answer, ask clarifying questions.''"

definition enhance_prompt :: "string \<Rightarrow> string \<Rightarrow> string" where
  "enhance_prompt user_text context =
     (if context \<noteq> []
      then text_base_instruction @ [NL, NL] @ ''Conversation Context:'' @ NL # context @
           [NL, NL] @ ''User Query: '' @ user_text
      else text_base_instruction @ [NL, NL] @ ''User Query: '' @ user_text)"

text \<open>
  \<open>TextAgent.process\<close>. The whole body is inside \<open>try\<close>; the call of the client is the
  one statement of it that can raise, and the handler turns the exception into the answer.
\<close>

definition text_process :: "env \<Rightarrow> string \<Rightarrow> image option \<Rightarrow> session \<Rightarrow> string \<times> session" where
  "text_process E user_text image_data s =
     (let s0 = emit (TextProcess user_text image_data) s;
          context = get_context s0;
          enhanced_prompt = enhance_prompt user_text context;
          s1 = emit (GenerateText enhanced_prompt context) s0
      in case generate_text_response E (client_calls (events s0)) enhanced_prompt context of
           Inr response \<Rightarrow>
             (let s2 = update_state text_agent_name
                         [''last_response'' \<mapsto> VStr response, ''active'' \<mapsto> VBool True] s1;
                  s3 = update_context
                         (''User asked: '' @ user_text @ NL # ''Agent responded: '' @
                          slice_to 200 response @ ''...'') s2
              in (response, s3))
         | Inl e \<Rightarrow>
             (let error_msg = ''Error processing text input: '' @ e;
                  s2 = update_state text_agent_name
                         [''last_response'' \<mapsto> VStr error_msg, ''active'' \<mapsto> VBool False] s1
              in (error_msg, s2)))"


section \<open>VisionAgent\<close>

definition vision_agent_name :: string where
  "vision_agent_name = ''Vision Agent''"

definition vision_base_instruction :: string where
  "vision_base_instruction =
     ''You are a specialized vision AI assistant. Analyze the provided image carefully and respond to the user'' @ CHR 0x27 #
     ''s query with detailed, accurate observations. '' @ NL #
     ''        Focus on visual elements, objects, people, text, colors, composition, and any relevant details that address the user'' @ CHR 0x27 #
     ''s question.''"

definition enhance_vision_prompt :: "string \<Rightarrow> string \<Rightarrow> string" where
  "enhance_vision_prompt user_text context =
     (let query = (if strip user_text = [] then ''Please describe this image in detail.''
                   else user_text)
      in if context \<noteq> []
         then vision_base_instruction @ [NL, NL] @ ''Conversation Context:'' @ NL # context @
              [NL, NL] @ ''User Query about the image: '' @ query
         else vision_base_instruction @ [NL, NL] @ ''User Query about the image: '' @ query)"

text \<open>
  \<open>_process_image\<close>: a decoded image and an unknown object are passed on, a file-like
  object is opened, and a failure of that is raised again under a new message.
\<close>

definition process_image :: "env \<Rightarrow> image \<Rightarrow> string + image" where
  "process_image E image_data =
     (case image_data of
        PILImage n \<Rightarrow> Inr (PILImage n)
      | FileLike n \<Rightarrow>
          (case image_open E n of
             Inr m \<Rightarrow> Inr (PILImage m)
           | Inl e \<Rightarrow> Inl (''Unable to process image: '' @ e))
      | OtherImage n \<Rightarrow> Inr (OtherImage n))"

definition no_image_message :: string where
  "no_image_message = ''No image provided. Please upload an image for visual analysis.''"

text \<open>The handler of \<open>VisionAgent.process\<close>.\<close>

definition vision_except :: "string \<Rightarrow> session \<Rightarrow> string \<times> session" where
  "vision_except e s =
     (let error_msg = ''Error processing image: '' @ e;
          s' = update_state vision_agent_name
                 [''last_response'' \<mapsto> VStr error_msg, ''active'' \<mapsto> VBool False] s
      in (error_msg, s'))"

text \<open>
  \<open>VisionAgent.process\<close> once an image is at hand: the statements from reading the
  context to the \<open>return\<close>, with the handler.
\<close>

definition vision_analyse :: "env \<Rightarrow> string \<Rightarrow> image \<Rightarrow> session \<Rightarrow> string \<times> session" where
  "vision_analyse E user_text img s =
     (let context = get_context s;
          enhanced_prompt = enhance_vision_prompt user_text context
      in case process_image E img of
           Inl e \<Rightarrow> vision_except e s
         | Inr processed_image \<Rightarrow>
             (let s1 = emit (GenerateVision enhanced_prompt processed_image context) s
              in case generate_vision_response E (client_calls (events s)) enhanced_prompt
                        processed_image context of
                   Inl e \<Rightarrow> vision_except e s1
                 | Inr response \<Rightarrow>
                     (let s2 = update_state vision_agent_name
                                 [''last_response'' \<mapsto> VStr response, ''active'' \<mapsto> VBool True] s1;
                          s3 = update_context
                                 (''User asked about image: '' @ user_text @ NL #
                                  ''Vision analysis: '' @ slice_to 200 response @ ''...'') s2
                      in (response, s3))))"

text \<open>\<open>VisionAgent.process\<close>.\<close>

definition vision_process :: "env \<Rightarrow> string \<Rightarrow> image option \<Rightarrow> session \<Rightarrow> string \<times> session" where
  "vision_process E user_text image_data s =
     (let s0 = emit (VisionProcess user_text image_data) s;
          image_data' = (if image_data = None then get_latest_image s0 else image_data)
      in case image_data' of
           None \<Rightarrow> (no_image_message, s0)
         | Some img \<Rightarrow> vision_analyse E user_text img s0)"

section \<open>CoordinatorAgent\<close>

definition coordinator_name :: string where
  "coordinator_name = ''Coordinator Agent''"

definition image_keywords :: "string list" where
  "image_keywords =
     [''image'', ''picture'', ''photo'', ''see'', ''look'', ''visual'', ''describe'',
      ''analyze'', ''identify'', ''what is'', ''what are'']"

text \<open>\<open>_determine_input_type\<close>.\<close>

definition determine_input_type :: "string \<Rightarrow> bool \<Rightarrow> string" where
  "determine_input_type user_text has_img =
     (if has_img
      then (if list_ex (\<lambda>keyword. py_in keyword (lower user_text)) image_keywords
               \<or> strip user_text = []
            then ''vision_primary'' else ''vision_with_text'')
      else ''text_only'')"

text \<open>The prompt of \<open>_combine_responses\<close>, a triple-quoted text with its indentation.\<close>

definition indent :: string where
  "indent = ''        ''"

definition synthesis_prompt :: "string \<Rightarrow> string \<Rightarrow> string \<Rightarrow> string" where
  "synthesis_prompt vision_response text_response original_query =
     NL # indent @ ''Original user query: '' @ original_query @ NL #
     indent @ NL #
     indent @ ''Vision Agent Analysis: '' @ vision_response @ NL #
     indent @ NL #
     indent @ ''Text Agent Response: '' @ text_response @ NL #
     indent @ NL #
     indent @ ''Please provide a coherent, comprehensive response that combines the visual analysis with the textual reasoning to best answer the user'' @ CHR 0x27 #
     ''s query.'' @ NL #
     indent"

definition synthesis_banner :: string where
  "synthesis_banner = ''**Comprehensive Analysis:**'' @ [NL, NL]"

definition fallback_combination :: "string \<Rightarrow> string \<Rightarrow> string" where
  "fallback_combination vision_response text_response =
     ''**Visual Analysis:**'' @ NL # vision_response @ [NL, NL] @
     ''**Additional Analysis:**'' @ NL # text_response"

text \<open>
  \<open>_combine_responses\<close>: the client is called with the prompt alone (its context
  argument takes the default, the empty text), and a bare \<open>except\<close> catches whatever
  it raises.
\<close>

definition combine_responses ::
  "env \<Rightarrow> string \<Rightarrow> string \<Rightarrow> string \<Rightarrow> session \<Rightarrow> string \<times> session" where
  "combine_responses E vision_response text_response original_query s =
     (let prompt = synthesis_prompt vision_response text_response original_query;
          s1 = emit (GenerateText prompt []) s
      in case generate_text_response E (client_calls (events s)) prompt [] of
           Inr synthesized \<Rightarrow> (synthesis_banner @ synthesized, s1)
         | Inl e \<Rightarrow> (fallback_combination vision_response text_response, s1))"

text \<open>The prompt handed to the text agent after the vision agent has answered.\<close>

definition enhanced_query :: "string \<Rightarrow> string \<Rightarrow> string" where
  "enhanced_query vision_response user_text =
     ''Based on this image analysis: '' @ vision_response @ [NL, NL] @
     ''User'' @ CHR 0x27 # ''s additional question: '' @ user_text"

text \<open>\<open>_route_request\<close>.\<close>

definition route_request ::
  "env \<Rightarrow> string \<Rightarrow> image option \<Rightarrow> string \<Rightarrow> bool \<Rightarrow> session \<Rightarrow> string \<times> session" where
  "route_request E user_text image_data input_type has_img s =
     (if input_type = ''text_only'' then
        text_process E user_text image_data
          (log_action coordinator_name ''Routing to Text Agent''
             ''Processing text-only query'' s)
      else if input_type = ''vision_primary'' then
        vision_process E user_text image_data
          (log_action coordinator_name ''Routing to Vision Agent''
             ''Processing image-focused query'' s)
      else if input_type = ''vision_with_text'' then
        (let s0 = log_action coordinator_name ''Coordinating Multi-Modal Processing''
                    ''Using both Vision and Text agents'' s;
             (vision_response, s1) = vision_process E user_text image_data s0;
             (text_response, s2) =
               text_process E (enhanced_query vision_response user_text) None s1
         in combine_responses E vision_response text_response user_text s2)
      else (''Unable to determine how to process this request.'', s))"

definition get_agents_used :: "string \<Rightarrow> string list" where
  "get_agents_used input_type =
     (if input_type = ''text_only'' then [''Text Agent'']
      else if input_type = ''vision_primary'' then [''Vision Agent'']
      else if input_type = ''vision_with_text'' then [''Vision Agent'', ''Text Agent'']
      else [])"

definition get_routing_info :: "string \<Rightarrow> bool \<Rightarrow> val" where
  "get_routing_info input_type has_img =
     VRouting input_type has_img (get_agents_used input_type) input_type"

text \<open>
  The first two statements of \<open>CoordinatorAgent.process\<close>: \<open>has_image\<close> and
  \<open>input_type\<close>, in this order.
\<close>

definition process_classify :: "string \<Rightarrow> image option \<Rightarrow> bool \<times> string" where
  "process_classify user_text image_data =
     (let has_img = (image_data \<noteq> None)
      in (has_img, determine_input_type user_text has_img))"

text \<open>
  The body of the \<open>try\<close> in \<open>CoordinatorAgent.process\<close>: \<open>Inr\<close> is the value it returns,
  \<open>Inl msg\<close> an exception leaving it.
\<close>

definition process_try ::
  "env \<Rightarrow> string \<Rightarrow> image option \<Rightarrow> session \<Rightarrow> (string + string) \<times> session" where
  "process_try E user_text image_data s =
     (let (has_img, input_type) = process_classify user_text image_data;
          (response, s1) = route_request E user_text image_data input_type has_img s;
          s2 = update_state coordinator_name
                 [''last_decision'' \<mapsto> VStr input_type,
                  ''active'' \<mapsto> VBool True,
                  ''last_routing'' \<mapsto> get_routing_info input_type has_img] s1
      in (Inr response, s2))"

text \<open>The handler of \<open>CoordinatorAgent.process\<close>.\<close>

definition process_except :: "string \<Rightarrow> session \<Rightarrow> string \<times> session" where
  "process_except e s =
     (let error_msg = ''Coordinator error: '' @ e;
          s' = update_state coordinator_name
                 [''last_decision'' \<mapsto> VStr ''error'', ''active'' \<mapsto> VBool False] s
      in (error_msg, s'))"

text \<open>\<open>CoordinatorAgent.process\<close>.\<close>

definition process :: "env \<Rightarrow> string \<Rightarrow> image option \<Rightarrow> session \<Rightarrow> string \<times> session" where
  "process E user_text image_data s =
     (case process_try E user_text image_data s of
        (Inr response, s') \<Rightarrow> (response, s')
      | (Inl e, s') \<Rightarrow> process_except e s')"

text \<open>Which events are entries into a role's \<open>process\<close>.\<close>

definition is_role_entry :: "event \<Rightarrow> bool" where
  "is_role_entry ev =
     (case ev of TextProcess _ _ \<Rightarrow> True | VisionProcess _ _ \<Rightarrow> True | _ \<Rightarrow> False)"


section \<open>Three clients for the examples\<close>

text \<open>
  A client that answers every call, one whose every call raises, and one that answers
  until its text entry point has seen two calls of the client and raises from then on.
\<close>

definition answering_env :: env where
  "answering_env =
     \<lparr>generate_text_response = (\<lambda>_ _ _. Inr ''an answer''),
      generate_vision_response = (\<lambda>_ _ _ _. Inr ''a cat on a mat''),
      image_open = (\<lambda>n. Inr n)\<rparr>"

definition failing_env :: env where
  "failing_env =
     \<lparr>generate_text_response = (\<lambda>_ _ _. Inl ''quota exceeded''),
      generate_vision_response = (\<lambda>_ _ _ _. Inl ''quota exceeded''),
      image_open = (\<lambda>n. Inl ''cannot identify image file'')\<rparr>"

definition tiring_env :: env where
  "tiring_env =
     \<lparr>generate_text_response =
        (\<lambda>calls _ _. if length calls < 2 then Inr ''an answer'' else Inl ''quota exceeded''),
      generate_vision_response = (\<lambda>_ _ _ _. Inr ''a cat on a mat''),
      image_open = (\<lambda>n. Inr n)\<rparr>"

text \<open>The events that a turn adds to those of the state it starts from.\<close>

definition turn_events :: "session \<Rightarrow> session \<Rightarrow> event list" where
  "turn_events s s' = drop (length (events s)) (events s')"


section \<open>GeminiClient\<close>

text \<open>
  The client of the repository, over the two models it holds. Each entry point builds
  the full prompt, asks its model and reads the text of the answer inside \<open>try\<close>, and
  its handler returns the failure as a text: the entry point itself does not raise.
\<close>

definition full_prompt :: "string \<Rightarrow> string \<Rightarrow> string" where
  "full_prompt prompt context =
     (if context \<noteq> [] then ''Context: '' @ context @ [NL, NL] @ ''Query: '' @ prompt
      else prompt)"

definition gemini_client ::
  "(event list \<Rightarrow> string \<Rightarrow> string + string) \<Rightarrow>
   (event list \<Rightarrow> string \<Rightarrow> image \<Rightarrow> string + string) \<Rightarrow>
   (nat \<Rightarrow> string + nat) \<Rightarrow> env" where
  "gemini_client text_model vision_model open_image =
     \<lparr>generate_text_response =
        (\<lambda>evs prompt context.
           case text_model evs (full_prompt prompt context) of
             Inr t \<Rightarrow> Inr t
           | Inl e \<Rightarrow> Inr (''Error generating text response: '' @ e)),
      generate_vision_response =
        (\<lambda>evs prompt img context.
           case vision_model evs (full_prompt prompt context) img of
             Inr t \<Rightarrow> Inr t
           | Inl e \<Rightarrow> Inr (''Error generating vision response: '' @ e)),
      image_open = open_image\<rparr>"


section \<open>Text: substrings and blank text\<close>

lemma starts_with_iff: "starts_with s kw \<longleftrightarrow> (\<exists>post. s = kw @ post)"
  by (induction s kw rule: starts_with.induct) auto

lemma py_in_iff: "py_in kw s \<longleftrightarrow> (\<exists>pre post. s = pre @ kw @ post)"
proof (induction s)
  case Nil
  then show ?case by auto
next
  case (Cons c cs)
  show ?case
  proof
    assume "py_in kw (c # cs)"
    then consider "starts_with (c # cs) kw" | "py_in kw cs" by auto
    then show "\<exists>pre post. c # cs = pre @ kw @ post"
    proof cases
      case 1
      then obtain post where "c # cs = kw @ post" by (auto simp: starts_with_iff)
      then have "c # cs = [] @ kw @ post" by simp
      then show ?thesis by blast
    next
      case 2
      then obtain pre post where "cs = pre @ kw @ post" using Cons.IH by auto
      then have "c # cs = (c # pre) @ kw @ post" by simp
      then show ?thesis by blast
    qed
  next
    assume "\<exists>pre post. c # cs = pre @ kw @ post"
    then obtain pre post where eq: "c # cs = pre @ kw @ post" by blast
    show "py_in kw (c # cs)"
    proof (cases pre)
      case Nil
      with eq have "starts_with (c # cs) kw" by (auto simp: starts_with_iff)
      then show ?thesis by simp
    next
      case (Cons p ps)
      with eq have "cs = ps @ kw @ post" by simp
      then have "py_in kw cs" using Cons.IH by blast
      then show ?thesis by simp
    qed
  qed
qed

lemma dropWhile_all_iff: "(\<forall>x\<in>set (dropWhile P xs). P x) \<longleftrightarrow> (\<forall>x\<in>set xs. P x)"
  by (induction xs) auto

lemma strip_empty_iff: "strip s = [] \<longleftrightarrow> (\<forall>c\<in>set s. is_space c)"
  by (simp add: strip_def dropWhile_eq_Nil_conv dropWhile_all_iff)

lemma list_ex_keywords:
  "list_ex P image_keywords \<longleftrightarrow>
   (\<exists>kw\<in>{''image'', ''picture'', ''photo'', ''see'', ''look'', ''visual'', ''describe'',
           ''analyze'', ''identify'', ''what is'', ''what are''}. P kw)"
  by (simp add: image_keywords_def)


section \<open>Classification\<close>

text \<open>
  C1. The classification that \<open>process\<close> computes for a turn: \<open>text_only\<close> when no
  image comes with it; \<open>vision_primary\<close> when an image comes and the text is blank or,
  put in lower case, contains one of the eleven keywords as a contiguous piece;
  \<open>vision_with_text\<close> when an image comes, the text is not blank and no keyword occurs.
\<close>

theorem classification_rule:
  "snd (process_classify user_text image_data) =
     (if image_data = None then ''text_only''
      else if (\<forall>c\<in>set user_text. is_space c) \<or>
              (\<exists>kw\<in>{''image'', ''picture'', ''photo'', ''see'', ''look'', ''visual'',
                      ''describe'', ''analyze'', ''identify'', ''what is'', ''what are''}.
                 \<exists>pre post. lower user_text = pre @ kw @ post)
           then ''vision_primary''
           else ''vision_with_text'')"
  unfolding process_classify_def determine_input_type_def Let_def snd_conv
    list_ex_keywords py_in_iff strip_empty_iff
  by (cases image_data) auto

theorem classification_rule_witness:
  "snd (process_classify ''hello there'' None) = ''text_only'' \<and>
   snd (process_classify ''   '' (Some (PILImage 0))) = ''vision_primary'' \<and>
   snd (process_classify ''Please DESCRIBE it'' (Some (PILImage 0))) = ''vision_primary'' \<and>
   snd (process_classify ''why does this matter?'' (Some (PILImage 0))) = ''vision_with_text''"
  using classification_rule[of "''hello there''" None]
    classification_rule[of "''   ''" "Some (PILImage 0)"]
    classification_rule[of "''Please DESCRIBE it''" "Some (PILImage 0)"]
    classification_rule[of "''why does this matter?''" "Some (PILImage 0)"]
  unfolding py_in_iff[symmetric]
  by (simp add: is_space_def lower_def lower_char_def char_of_eq_iff)


section \<open>The rolling context\<close>

lemma slice_from_neg: "0 < k \<Longrightarrow> slice_from (- int k) xs = drop (length xs - k) xs"
proof -
  assume k: "0 < k"
  have "nat (max 0 (- int k + int (length xs))) = length xs - k" by arith
  with k show ?thesis by (simp add: slice_from_def Let_def)
qed

lemma slice_last_1000: "slice_from (- 1000) xs = drop (length xs - 1000) xs"
  using slice_from_neg[of 1000 xs] by simp

lemma update_context_length: "length (current_context (update_context n s)) \<le> 1000"
  by (auto simp: update_context_def Let_def slice_last_1000)

lemma update_context_value:
  "current_context (update_context n s) =
     (let cat = (if current_context s = [] then n else current_context s @ [NL] @ n)
      in if length cat \<le> 1000 then cat else drop (length cat - 1000) cat)"
  by (auto simp: update_context_def Let_def slice_last_1000)

lemma foldl_update_context_length:
  "length (current_context s) \<le> 1000 \<Longrightarrow>
   length (current_context (foldl (\<lambda>t n. update_context n t) s news)) \<le> 1000"
  by (induction news arbitrary: s) (auto simp: update_context_length)

text \<open>
  C5. Starting from an empty buffer, after any sequence of appends the rolling context
  has at most 1000 characters. One append gives the new text when the buffer is empty and
  buffer, line feed, new text otherwise; when that is longer than 1000 characters its
  last 1000 characters are kept, in their order.
\<close>

theorem rolling_context_bounded:
  "(current_context s = [] \<longrightarrow>
      length (current_context (foldl (\<lambda>t n. update_context n t) s news)) \<le> 1000) \<and>
   current_context (update_context new t) =
     (let cat = (if current_context t = [] then new else current_context t @ [NL] @ new)
      in if length cat \<le> 1000 then cat else drop (length cat - 1000) cat)"
  using foldl_update_context_length[of s news] update_context_value[of new t] by simp

theorem rolling_context_bounded_witness:
  "current_context initialize_session_state = [] \<and>
   length (current_context (foldl (\<lambda>t n. update_context n t) initialize_session_state
      [replicate 600 CHR ''a'', replicate 600 CHR ''b''])) \<le> 1000 \<and>
   current_context (update_context ''second'' (update_context ''first'' initialize_session_state))
     = ''first'' @ [NL] @ ''second''"
  using rolling_context_bounded[of initialize_session_state
      "[replicate 600 CHR ''a'', replicate 600 CHR ''b'']" "''second''"
      "update_context ''first'' initialize_session_state"]
   rolling_context_bounded[of initialize_session_state "[]" "''first''" initialize_session_state]
  by (simp add: initialize_session_state_def)


section \<open>Recent history\<close>

lemma get_recent_history_positive:
  assumes "1 \<le> n"
  shows "get_recent_history n s =
           drop (length (conversation_history s) - nat n) (conversation_history s)"
proof -
  from assms have "0 < nat n" and "n = int (nat n)" by simp_all
  then show ?thesis
    using slice_from_neg[of "nat n" "conversation_history s"]
    by (simp add: get_recent_history_def)
qed

lemma get_recent_history_zero: "get_recent_history 0 s = conversation_history s"
  by (simp add: get_recent_history_def slice_from_def)

text \<open>
  C6, as the code has it. For a limit \<open>n\<close> of at least one, \<open>get_recent_history\<close>
  returns at most \<open>n\<close> records; they are the end of the log, in the order of the log;
  and when the log is not empty the newest record is the last one returned.
\<close>

theorem recent_history_last_n:
  assumes "1 \<le> n"
  shows "int (length (get_recent_history n s)) \<le> n \<and>
         (\<exists>older. conversation_history s = older @ get_recent_history n s) \<and>
         (conversation_history s \<noteq> [] \<longrightarrow>
            get_recent_history n s \<noteq> [] \<and>
            last (get_recent_history n s) = last (conversation_history s))"
proof -
  let ?h = "conversation_history s"
  let ?k = "length ?h - nat n"
  have eq: "get_recent_history n s = drop ?k ?h"
    by (rule get_recent_history_positive[OF assms])
  have len: "int (length (drop ?k ?h)) \<le> n" using assms by simp
  have "?h = take ?k ?h @ drop ?k ?h" by simp
  then have pre: "\<exists>older. ?h = older @ drop ?k ?h" by blast
  have lst: "?h \<noteq> [] \<longrightarrow> drop ?k ?h \<noteq> [] \<and> last (drop ?k ?h) = last ?h"
  proof
    assume "?h \<noteq> []"
    then have "0 < length ?h" by simp
    with assms have "?k < length ?h" by arith
    then show "drop ?k ?h \<noteq> [] \<and> last (drop ?k ?h) = last ?h"
      by (simp add: last_drop)
  qed
  from len pre lst show ?thesis unfolding eq by simp
qed

theorem recent_history_last_n_witness:
  "int (length (get_recent_history 2
     (add_to_history ''t3'' ''third'' ''r3'' ''Coordinator'' None
       (add_to_history ''t2'' ''second'' ''r2'' ''Coordinator'' None
         (add_to_history ''t1'' ''first'' ''r1'' ''Coordinator'' None
            initialize_session_state))))) \<le> 2 \<and>
   last (get_recent_history 2
     (add_to_history ''t3'' ''third'' ''r3'' ''Coordinator'' None
       (add_to_history ''t2'' ''second'' ''r2'' ''Coordinator'' None
         (add_to_history ''t1'' ''first'' ''r1'' ''Coordinator'' None
            initialize_session_state))))
   = \<lparr>timestamp = ''t3'', user_input = ''third'', agent_response = ''r3'',
       agent_type = ''Coordinator'', has_image = False\<rparr>"
  using recent_history_last_n[of 2
     "add_to_history ''t3'' ''third'' ''r3'' ''Coordinator'' None
       (add_to_history ''t2'' ''second'' ''r2'' ''Coordinator'' None
         (add_to_history ''t1'' ''first'' ''r1'' ''Coordinator'' None
            initialize_session_state))"]
  by (simp add: add_to_history_def initialize_session_state_def)

text \<open>
  C6 with the limit \<open>0\<close>, which the claim includes: the slice \<open>history[-0:]\<close> is the
  whole history, so on a log of one record the call returns that record, one more than
  a limit of \<open>0\<close> allows.
\<close>

theorem recent_history_limit_zero:
  "get_recent_history 0
     (add_to_history ''2024-01-01T10:00:00'' ''hello'' ''an answer'' ''Coordinator'' None
        initialize_session_state)
   = [\<lparr>timestamp = ''2024-01-01T10:00:00'', user_input = ''hello'',
        agent_response = ''an answer'', agent_type = ''Coordinator'', has_image = False\<rparr>] \<and>
   \<not> int (length (get_recent_history 0
     (add_to_history ''2024-01-01T10:00:00'' ''hello'' ''an answer'' ''Coordinator'' None
        initialize_session_state))) \<le> 0"
  by (simp add: get_recent_history_zero add_to_history_def initialize_session_state_def)


section \<open>Role states of unknown names\<close>

lemma dom_initial_agent_states:
  "dom initial_agent_states = {''text_agent'', ''vision_agent'', ''coordinator''}"
  by (auto simp: initial_agent_states_def)

text \<open>
  C10. When the stored role states are those of the three initialised names, an update
  under any other name changes nothing at all, and the state read under that name is
  the empty record, before the update and after it.
\<close>

theorem unknown_role_update_is_noop:
  assumes "dom (agent_states s) = {''text_agent'', ''vision_agent'', ''coordinator''}"
    and "agent_name \<notin> {''text_agent'', ''vision_agent'', ''coordinator''}"
  shows "update_agent_state agent_name state_data s = s \<and>
         get_agent_state agent_name s = Map.empty \<and>
         get_agent_state agent_name (update_agent_state agent_name state_data s) = Map.empty"
proof -
  from assms have "agent_states s agent_name = None" by blast
  then show ?thesis by (simp add: update_agent_state_def get_agent_state_def)
qed

theorem unknown_role_update_is_noop_witness:
  "update_agent_state ''coordinator_agent'' [''active'' \<mapsto> VBool False] initialize_session_state
     = initialize_session_state \<and>
   get_agent_state ''coordinator_agent'' initialize_session_state = Map.empty"
  using unknown_role_update_is_noop[of initialize_session_state "''coordinator_agent''"
      "[''active'' \<mapsto> VBool False]"]
  by (simp add: initialize_session_state_def dom_initial_agent_states)


section \<open>What each operation leaves unchanged\<close>

lemma client_calls_simps [simp]:
  "client_calls [] = []"
  "client_calls (evs @ evs') = client_calls evs @ client_calls evs'"
  "client_calls (StWrite m # evs) = client_calls evs"
  "client_calls (TextProcess u i # evs) = client_calls evs"
  "client_calls (VisionProcess u i # evs) = client_calls evs"
  "client_calls (GenerateText p c # evs) = GenerateText p c # client_calls evs"
  "client_calls (GenerateVision p img c # evs) = GenerateVision p img c # client_calls evs"
  by (simp_all add: client_calls_def is_client_call_def)

lemma emit_fields [simp]:
  "events (emit e s) = events s @ [e]"
  "current_context (emit e s) = current_context s"
  "conversation_history (emit e s) = conversation_history s"
  "uploaded_images (emit e s) = uploaded_images s"
  "agent_states (emit e s) = agent_states s"
  by (simp_all add: emit_def)

lemma update_agent_state_fields [simp]:
  "events (update_agent_state k d s) = events s"
  "current_context (update_agent_state k d s) = current_context s"
  "conversation_history (update_agent_state k d s) = conversation_history s"
  "uploaded_images (update_agent_state k d s) = uploaded_images s"
  by (simp_all add: update_agent_state_def split: option.splits)

lemma update_agent_state_other:
  "k' \<noteq> k \<Longrightarrow> agent_states (update_agent_state k d s) k' = agent_states s k'"
  by (simp add: update_agent_state_def split: option.splits)

lemma update_agent_state_states:
  "agent_states (update_agent_state k d s) =
     (case agent_states s k of None \<Rightarrow> agent_states s
      | Some old \<Rightarrow> (agent_states s)(k \<mapsto> old ++ d))"
  by (simp add: update_agent_state_def split: option.splits)

lemma dom_update_agent_state [simp]:
  "dom (agent_states (update_agent_state k d s)) = dom (agent_states s)"
  by (auto simp: update_agent_state_def split: option.splits)

lemma update_state_fields [simp]:
  "events (update_state name d s) = events s"
  "current_context (update_state name d s) = current_context s"
  "conversation_history (update_state name d s) = conversation_history s"
  "uploaded_images (update_state name d s) = uploaded_images s"
  "dom (agent_states (update_state name d s)) = dom (agent_states s)"
  by (simp_all add: update_state_def)

lemma update_context_fields [simp]:
  "events (update_context n s) = events s"
  "conversation_history (update_context n s) = conversation_history s"
  "uploaded_images (update_context n s) = uploaded_images s"
  "agent_states (update_context n s) = agent_states s"
  by (simp_all add: update_context_def Let_def)

lemma log_action_fields [simp]:
  "current_context (log_action name a d s) = current_context s"
  "conversation_history (log_action name a d s) = conversation_history s"
  "uploaded_images (log_action name a d s) = uploaded_images s"
  "agent_states (log_action name a d s) = agent_states s"
  by (simp_all add: log_action_def Let_def)

lemma log_action_events:
  "events (log_action name a d s) =
     events s @ StWrite (robot @ '' **'' @ name @ ''**: '' @ a) #
       (if d \<noteq> [] then [StWrite (''   *'' @ d @ ''*'')] else [])"
  by (simp add: log_action_def Let_def)

lemma log_action_client_calls [simp]:
  "client_calls (events (log_action name a d s)) = client_calls (events s)"
  by (simp add: log_action_events)

lemma state_key_text: "state_key text_agent_name = ''text_agent''"
  by code_simp

lemma state_key_vision: "state_key vision_agent_name = ''vision_agent''"
  by code_simp

lemma state_key_coordinator: "state_key coordinator_name = ''coordinator_agent''"
  by code_simp

lemma text_process_frame [simp]:
  "conversation_history (snd (text_process E u i s)) = conversation_history s"
  "uploaded_images (snd (text_process E u i s)) = uploaded_images s"
  "dom (agent_states (snd (text_process E u i s))) = dom (agent_states s)"
  by (simp_all add: text_process_def Let_def split: sum.splits)

lemma text_process_events:
  "events (snd (text_process E u i s)) =
     events s @ [TextProcess u i,
                 GenerateText (enhance_prompt u (current_context s)) (current_context s)]"
  by (simp add: text_process_def Let_def get_context_def split: sum.splits)

lemma text_process_other_states:
  "k \<noteq> ''text_agent'' \<Longrightarrow> agent_states (snd (text_process E u i s)) k = agent_states s k"
  by (simp add: text_process_def Let_def update_state_def state_key_text
      update_agent_state_other split: sum.splits)

lemma vision_except_frame [simp]:
  "events (snd (vision_except e s)) = events s"
  "current_context (snd (vision_except e s)) = current_context s"
  "conversation_history (snd (vision_except e s)) = conversation_history s"
  "uploaded_images (snd (vision_except e s)) = uploaded_images s"
  "dom (agent_states (snd (vision_except e s))) = dom (agent_states s)"
  by (simp_all add: vision_except_def Let_def)

lemma vision_analyse_frame [simp]:
  "conversation_history (snd (vision_analyse E u img s)) = conversation_history s"
  "uploaded_images (snd (vision_analyse E u img s)) = uploaded_images s"
  "dom (agent_states (snd (vision_analyse E u img s))) = dom (agent_states s)"
  by (simp_all add: vision_analyse_def Let_def split: sum.splits)

lemma vision_process_frame [simp]:
  "conversation_history (snd (vision_process E u i s)) = conversation_history s"
  "uploaded_images (snd (vision_process E u i s)) = uploaded_images s"
  "dom (agent_states (snd (vision_process E u i s))) = dom (agent_states s)"
  by (simp_all add: vision_process_def Let_def split: option.splits)

lemma vision_analyse_other_states:
  "k \<noteq> ''vision_agent'' \<Longrightarrow> agent_states (snd (vision_analyse E u img s)) k = agent_states s k"
  by (simp add: vision_analyse_def vision_except_def Let_def update_state_def state_key_vision
      update_agent_state_other split: sum.splits)

lemma vision_process_other_states:
  "k \<noteq> ''vision_agent'' \<Longrightarrow> agent_states (snd (vision_process E u i s)) k = agent_states s k"
  by (simp add: vision_process_def Let_def vision_analyse_other_states split: option.splits)

lemma vision_analyse_events:
  "\<exists>calls. events (snd (vision_analyse E u img s)) = events s @ calls \<and>
           filter is_role_entry calls = [] \<and> length calls \<le> 1"
  by (auto simp: vision_analyse_def Let_def is_role_entry_def split: sum.splits)

lemma vision_process_events:
  "\<exists>calls. events (snd (vision_process E u i s)) = events s @ VisionProcess u i # calls \<and>
           filter is_role_entry calls = [] \<and> length calls \<le> 1"
proof (cases "if i = None then get_latest_image (emit (VisionProcess u i) s) else i")
  case None
  then show ?thesis by (simp add: vision_process_def Let_def)
next
  case (Some img)
  obtain calls where
    "events (snd (vision_analyse E u img (emit (VisionProcess u i) s))) =
       events (emit (VisionProcess u i) s) @ calls"
    "filter is_role_entry calls = []" "length calls \<le> 1"
    using vision_analyse_events by blast
  with Some show ?thesis by (simp add: vision_process_def Let_def)
qed


lemma combine_responses_frame [simp]:
  "events (snd (combine_responses E v t q s)) = events s @ [GenerateText (synthesis_prompt v t q) []]"
  "current_context (snd (combine_responses E v t q s)) = current_context s"
  "conversation_history (snd (combine_responses E v t q s)) = conversation_history s"
  "uploaded_images (snd (combine_responses E v t q s)) = uploaded_images s"
  "agent_states (snd (combine_responses E v t q s)) = agent_states s"
  by (simp_all add: combine_responses_def Let_def split: sum.splits)

lemma combine_responses_result:
  "fst (combine_responses E v t q s) =
     (case generate_text_response E (client_calls (events s)) (synthesis_prompt v t q) [] of
        Inl e \<Rightarrow> fallback_combination v t
      | Inr synthesized \<Rightarrow> synthesis_banner @ synthesized)"
  by (simp add: combine_responses_def Let_def split: sum.splits)

lemma route_request_other_states:
  assumes "k \<noteq> ''text_agent''" "k \<noteq> ''vision_agent''"
  shows "agent_states (snd (route_request E u i ty h s)) k = agent_states s k"
  using assms
  by (simp add: route_request_def Let_def split_beta text_process_other_states
      vision_process_other_states)

lemma route_request_frame [simp]:
  "conversation_history (snd (route_request E u i ty h s)) = conversation_history s"
  "uploaded_images (snd (route_request E u i ty h s)) = uploaded_images s"
  "dom (agent_states (snd (route_request E u i ty h s))) = dom (agent_states s)"
  by (simp_all add: route_request_def Let_def split_beta)

lemma process_try_returns:
  "fst (process_try E u i s) =
     Inr (fst (route_request E u i (snd (process_classify u i)) (fst (process_classify u i)) s))"
  by (simp add: process_try_def Let_def split_beta)

lemma process_completes:
  "process E u i s =
     (fst (route_request E u i (snd (process_classify u i)) (fst (process_classify u i)) s),
      snd (process_try E u i s))"
  by (simp add: process_def process_try_def Let_def split_beta)

lemma process_try_state:
  "snd (process_try E u i s) =
     update_state coordinator_name
       [''last_decision'' \<mapsto> VStr (snd (process_classify u i)),
        ''active'' \<mapsto> VBool True,
        ''last_routing'' \<mapsto> get_routing_info (snd (process_classify u i)) (fst (process_classify u i))]
       (snd (route_request E u i (snd (process_classify u i)) (fst (process_classify u i)) s))"
  by (simp add: process_try_def Let_def split_beta)

lemma process_coordinator_entry:
  "agent_states (snd (process E u i s)) ''coordinator'' = agent_states s ''coordinator''"
  by (simp add: process_completes process_try_state update_state_def state_key_coordinator
      update_agent_state_other route_request_other_states)

lemma process_dom [simp]:
  "dom (agent_states (snd (process E u i s))) = dom (agent_states s)"
  by (simp add: process_completes process_try_state)

lemma process_events:
  "events (snd (process E u i s)) =
     events (snd (route_request E u i (snd (process_classify u i)) (fst (process_classify u i)) s))"
  by (simp add: process_completes process_try_state)


section \<open>What the repository's client can do\<close>

lemma gemini_client_never_raises:
  "generate_text_response (gemini_client tm vm oi) evs prompt context \<noteq> Inl e"
  "generate_vision_response (gemini_client tm vm oi) evs prompt img context \<noteq> Inl e"
  by (simp_all add: gemini_client_def split: sum.splits)


section \<open>The example clients\<close>

lemma classify_why:
  "process_classify ''why does this matter?'' (Some (PILImage 0)) = (True, ''vision_with_text'')"
  by (simp add: process_classify_def determine_input_type_def image_keywords_def strip_def
      is_space_def lower_def lower_char_def char_of_eq_iff)

lemma vision_process_answering:
  "fst (vision_process answering_env u (Some (PILImage n)) s) = ''a cat on a mat''"
  by (simp add: vision_process_def vision_analyse_def process_image_def Let_def answering_env_def)

lemma text_process_answering: "fst (text_process answering_env u i s) = ''an answer''"
  by (simp add: text_process_def Let_def answering_env_def)

lemma vision_process_failing:
  "fst (vision_process failing_env u (Some (PILImage n)) s) =
     ''Error processing image: quota exceeded''"
  by (simp add: vision_process_def vision_analyse_def vision_except_def process_image_def
      Let_def failing_env_def)

lemma text_process_failing:
  "fst (text_process failing_env u i s) = ''Error processing text input: quota exceeded''"
  by (simp add: text_process_def Let_def failing_env_def)


lemma vision_process_tiring:
  "fst (vision_process tiring_env u (Some (PILImage n)) s) = ''a cat on a mat''"
  "client_calls (events (snd (vision_process tiring_env u (Some (PILImage n)) s))) =
     client_calls (events s) @
       [GenerateVision (enhance_vision_prompt u (current_context s)) (PILImage n)
          (current_context s)]"
  by (simp_all add: vision_process_def vision_analyse_def process_image_def Let_def
      tiring_env_def get_context_def)

lemma text_process_tiring:
  "length (client_calls (events s)) < 2 \<Longrightarrow> fst (text_process tiring_env u i s) = ''an answer''"
  "length (client_calls (events (snd (text_process tiring_env u i s)))) =
     Suc (length (client_calls (events s)))"
  by (simp_all add: text_process_def Let_def tiring_env_def split: sum.splits)


section \<open>The vision role without an image\<close>

lemma vision_analyse_same_calls:
  assumes "client_calls (events s) = client_calls (events t)"
    and "current_context s = current_context t"
    and "agent_states s = agent_states t"
  shows "fst (vision_analyse E u img s) = fst (vision_analyse E u img t) \<and>
         current_context (snd (vision_analyse E u img s)) =
           current_context (snd (vision_analyse E u img t)) \<and>
         agent_states (snd (vision_analyse E u img s)) =
           agent_states (snd (vision_analyse E u img t)) \<and>
         client_calls (events (snd (vision_analyse E u img s))) =
           client_calls (events (snd (vision_analyse E u img t)))"
  using assms
  by (simp add: vision_analyse_def vision_except_def Let_def get_context_def update_state_def
      update_agent_state_states update_context_def split: sum.splits option.splits)

text \<open>
  C8. Called without an image when nothing has been uploaded, the vision role returns
  the fixed message about the missing image; no role state and no context is changed,
  and nothing but the entry into the role happens. Called without an image when there
  are uploads, it falls back to the image of the last upload: the answer, the role
  states, the context and the calls of the client are those of the call that is given
  this image.
\<close>

theorem vision_without_image:
  "(uploaded_images s = [] \<longrightarrow>
      fst (vision_process E user_text None s) =
        ''No image provided. Please upload an image for visual analysis.'' \<and>
      agent_states (snd (vision_process E user_text None s)) = agent_states s \<and>
      current_context (snd (vision_process E user_text None s)) = current_context s \<and>
      turn_events s (snd (vision_process E user_text None s)) = [VisionProcess user_text None]) \<and>
   (uploaded_images s \<noteq> [] \<longrightarrow>
      (let latest = up_image (last (uploaded_images s));
           given = vision_process E user_text (Some latest) s;
           absent = vision_process E user_text None s
       in fst absent = fst given \<and>
          agent_states (snd absent) = agent_states (snd given) \<and>
          current_context (snd absent) = current_context (snd given) \<and>
          client_calls (events (snd absent)) = client_calls (events (snd given))))"
proof (intro conjI impI)
  assume e: "uploaded_images s = []"
  then have r: "vision_process E user_text None s =
      (no_image_message, emit (VisionProcess user_text None) s)"
    by (simp add: vision_process_def Let_def get_latest_image_def)
  show "fst (vision_process E user_text None s) =
        ''No image provided. Please upload an image for visual analysis.''"
    unfolding r by (simp add: no_image_message_def)
  show "agent_states (snd (vision_process E user_text None s)) = agent_states s"
    unfolding r by simp
  show "current_context (snd (vision_process E user_text None s)) = current_context s"
    unfolding r by simp
  show "turn_events s (snd (vision_process E user_text None s)) = [VisionProcess user_text None]"
    unfolding r by (simp add: turn_events_def)
next
  assume ne: "uploaded_images s \<noteq> []"
  define latest where "latest = up_image (last (uploaded_images s))"
  let ?a = "emit (VisionProcess user_text None) s"
  let ?g = "emit (VisionProcess user_text (Some latest)) s"
  from ne have a: "vision_process E user_text None s = vision_analyse E user_text latest ?a"
    by (simp add: vision_process_def Let_def get_latest_image_def latest_def)
  have g: "vision_process E user_text (Some latest) s = vision_analyse E user_text latest ?g"
    by (simp add: vision_process_def Let_def)
  have "client_calls (events ?a) = client_calls (events ?g)"
    "current_context ?a = current_context ?g" "agent_states ?a = agent_states ?g"
    by simp_all
  from vision_analyse_same_calls[OF this]
  show "let latest = up_image (last (uploaded_images s));
           given = vision_process E user_text (Some latest) s;
           absent = vision_process E user_text None s
       in fst absent = fst given \<and>
          agent_states (snd absent) = agent_states (snd given) \<and>
          current_context (snd absent) = current_context (snd given) \<and>
          client_calls (events (snd absent)) = client_calls (events (snd given))"
    unfolding Let_def latest_def[symmetric] a g by blast
qed

theorem vision_without_image_witness:
  "fst (vision_process failing_env ''what is this?'' None initialize_session_state) =
     ''No image provided. Please upload an image for visual analysis.'' \<and>
   agent_states (snd (vision_process failing_env ''what is this?'' None initialize_session_state))
     = initial_agent_states \<and>
   fst (vision_process answering_env ''what is this?'' None
          (add_uploaded_image ''2024-01-01T10:00:00'' (PILImage 7) initialize_session_state))
     = ''a cat on a mat''"
  using vision_without_image[of initialize_session_state failing_env "''what is this?''"]
    vision_without_image[of
      "add_uploaded_image ''2024-01-01T10:00:00'' (PILImage 7) initialize_session_state"
      answering_env "''what is this?''"]
  by (simp add: initialize_session_state_def add_uploaded_image_def vision_process_answering
      Let_def)


section \<open>A role whose client call raises\<close>

lemma update_state_error_entry:
  "agent_states (update_state name [''last_response'' \<mapsto> VStr m, ''active'' \<mapsto> VBool b] s) =
     (case agent_states s (state_key name) of
        None \<Rightarrow> agent_states s
      | Some d \<Rightarrow> (agent_states s)(state_key name \<mapsto> d(''last_response'' \<mapsto> VStr m,
                                                         ''active'' \<mapsto> VBool b)))"
  by (simp add: update_state_def update_agent_state_states split: option.splits)

lemma get_latest_image_emit: "get_latest_image (emit ev s) = get_latest_image s"
  by (simp add: get_latest_image_def)

text \<open>
  C9. When the call of the client raises, the text role and the vision role leave the
  rolling context and the interaction log as they were: the answer is the error text,
  and of the role states only the role's own entry changes, and only in its
  \<open>last_response\<close>, now the error text, and its \<open>active\<close>, now false.
\<close>

theorem role_failure_keeps_context:
  "(generate_text_response E (client_calls (events s))
       (enhance_prompt user_text (current_context s)) (current_context s) = Inl e \<longrightarrow>
    (let (answer, s') = text_process E user_text image_data s
     in answer = ''Error processing text input: '' @ e \<and>
        current_context s' = current_context s \<and>
        conversation_history s' = conversation_history s \<and>
        agent_states s' =
          (case agent_states s ''text_agent'' of
             None \<Rightarrow> agent_states s
           | Some d \<Rightarrow> (agent_states s)(''text_agent'' \<mapsto>
                         d(''last_response'' \<mapsto> VStr answer, ''active'' \<mapsto> VBool False))))) \<and>
   ((if image_data = None then get_latest_image s else image_data) = Some img \<and>
    process_image E img = Inr processed \<and>
    generate_vision_response E (client_calls (events s))
       (enhance_vision_prompt user_text (current_context s)) processed (current_context s)
       = Inl e \<longrightarrow>
    (let (answer, s') = vision_process E user_text image_data s
     in answer = ''Error processing image: '' @ e \<and>
        current_context s' = current_context s \<and>
        conversation_history s' = conversation_history s \<and>
        agent_states s' =
          (case agent_states s ''vision_agent'' of
             None \<Rightarrow> agent_states s
           | Some d \<Rightarrow> (agent_states s)(''vision_agent'' \<mapsto>
                         d(''last_response'' \<mapsto> VStr answer, ''active'' \<mapsto> VBool False)))))"
proof (intro conjI impI)
  assume "generate_text_response E (client_calls (events s))
       (enhance_prompt user_text (current_context s)) (current_context s) = Inl e"
  then show "let (answer, s') = text_process E user_text image_data s
     in answer = ''Error processing text input: '' @ e \<and>
        current_context s' = current_context s \<and>
        conversation_history s' = conversation_history s \<and>
        agent_states s' =
          (case agent_states s ''text_agent'' of
             None \<Rightarrow> agent_states s
           | Some d \<Rightarrow> (agent_states s)(''text_agent'' \<mapsto>
                         d(''last_response'' \<mapsto> VStr answer, ''active'' \<mapsto> VBool False)))"
    by (simp add: text_process_def Let_def get_context_def update_state_error_entry
        state_key_text split: option.splits)
next
  assume a: "(if image_data = None then get_latest_image s else image_data) = Some img \<and>
    process_image E img = Inr processed \<and>
    generate_vision_response E (client_calls (events s))
       (enhance_vision_prompt user_text (current_context s)) processed (current_context s)
       = Inl e"
  then have "(if image_data = None then get_latest_image (emit (VisionProcess user_text image_data) s)
              else image_data) = Some img"
    unfolding get_latest_image_emit by (rule conjunct1)
  with a show "let (answer, s') = vision_process E user_text image_data s
     in answer = ''Error processing image: '' @ e \<and>
        current_context s' = current_context s \<and>
        conversation_history s' = conversation_history s \<and>
        agent_states s' =
          (case agent_states s ''vision_agent'' of
             None \<Rightarrow> agent_states s
           | Some d \<Rightarrow> (agent_states s)(''vision_agent'' \<mapsto>
                         d(''last_response'' \<mapsto> VStr answer, ''active'' \<mapsto> VBool False)))"
    by (simp add: vision_process_def vision_analyse_def vision_except_def Let_def
        get_context_def update_state_error_entry state_key_vision split: option.splits)
qed

theorem role_failure_keeps_context_witness:
  "fst (text_process failing_env ''hello'' None initialize_session_state) =
     ''Error processing text input: quota exceeded'' \<and>
   current_context (snd (text_process failing_env ''hello'' None initialize_session_state)) = [] \<and>
   conversation_history (snd (text_process failing_env ''hello'' None initialize_session_state))
     = [] \<and>
   agent_states (snd (text_process failing_env ''hello'' None initialize_session_state)) =
     initial_agent_states(''text_agent'' \<mapsto>
       [''active'' \<mapsto> VBool True, ''last_response'' \<mapsto> VStr [],
        ''last_response'' \<mapsto> VStr ''Error processing text input: quota exceeded'',
        ''active'' \<mapsto> VBool False]) \<and>
   fst (vision_process failing_env ''hello'' (Some (PILImage 0)) initialize_session_state) =
     ''Error processing image: quota exceeded'' \<and>
   current_context (snd (vision_process failing_env ''hello'' (Some (PILImage 0))
                           initialize_session_state)) = [] \<and>
   agent_states (snd (vision_process failing_env ''hello'' (Some (PILImage 0))
                           initialize_session_state)) =
     initial_agent_states(''vision_agent'' \<mapsto>
       [''active'' \<mapsto> VBool True, ''last_response'' \<mapsto> VStr [],
        ''last_response'' \<mapsto> VStr ''Error processing image: quota exceeded'',
        ''active'' \<mapsto> VBool False])"
proof -
  have t: "generate_text_response failing_env (client_calls (events initialize_session_state))
           (enhance_prompt ''hello'' (current_context initialize_session_state))
           (current_context initialize_session_state) = Inl ''quota exceeded''"
    by (simp add: failing_env_def)
  have v: "(if Some (PILImage 0) = None then get_latest_image initialize_session_state
            else Some (PILImage 0)) = Some (PILImage 0) \<and>
           process_image failing_env (PILImage 0) = Inr (PILImage 0) \<and>
           generate_vision_response failing_env (client_calls (events initialize_session_state))
           (enhance_vision_prompt ''hello'' (current_context initialize_session_state))
           (PILImage 0) (current_context initialize_session_state) = Inl ''quota exceeded''"
    by (simp add: failing_env_def process_image_def)
  have it: "initial_agent_states ''text_agent'' =
              Some [''active'' \<mapsto> VBool True, ''last_response'' \<mapsto> VStr []]"
    and iv: "initial_agent_states ''vision_agent'' =
              Some [''active'' \<mapsto> VBool True, ''last_response'' \<mapsto> VStr []]"
    and ia: "agent_states initialize_session_state = initial_agent_states"
    and ic: "current_context initialize_session_state = []"
    and ih: "conversation_history initialize_session_state = []"
    by (simp_all add: initialize_session_state_def initial_agent_states_def)
  from role_failure_keeps_context[where E = failing_env and s = initialize_session_state
      and user_text = "''hello''" and image_data = None and e = "''quota exceeded''"
      and img = "PILImage 0" and processed = "PILImage 0"] t
  have a: "let (answer, s') = text_process failing_env ''hello'' None initialize_session_state
     in answer = ''Error processing text input: '' @ ''quota exceeded'' \<and>
        current_context s' = current_context initialize_session_state \<and>
        conversation_history s' = conversation_history initialize_session_state \<and>
        agent_states s' =
          (case agent_states initialize_session_state ''text_agent'' of
             None \<Rightarrow> agent_states initialize_session_state
           | Some d \<Rightarrow> (agent_states initialize_session_state)(''text_agent'' \<mapsto>
                         d(''last_response'' \<mapsto> VStr answer, ''active'' \<mapsto> VBool False)))"
    by blast
  from role_failure_keeps_context[where E = failing_env and s = initialize_session_state
      and user_text = "''hello''" and image_data = "Some (PILImage 0)"
      and e = "''quota exceeded''" and img = "PILImage 0" and processed = "PILImage 0"] v
  have b: "let (answer, s') = vision_process failing_env ''hello'' (Some (PILImage 0))
                                initialize_session_state
     in answer = ''Error processing image: '' @ ''quota exceeded'' \<and>
        current_context s' = current_context initialize_session_state \<and>
        conversation_history s' = conversation_history initialize_session_state \<and>
        agent_states s' =
          (case agent_states initialize_session_state ''vision_agent'' of
             None \<Rightarrow> agent_states initialize_session_state
           | Some d \<Rightarrow> (agent_states initialize_session_state)(''vision_agent'' \<mapsto>
                         d(''last_response'' \<mapsto> VStr answer, ''active'' \<mapsto> VBool False)))"
    by blast
  from a b show ?thesis
    unfolding Let_def split_beta ia ic ih
    by (simp add: it iv)
qed


section \<open>The coordinator's own state\<close>

text \<open>
  C2. The claim asks that after a turn that completes normally the coordinator's role
  state holds the classification of the turn as \<open>last_decision\<close>. The coordinator stores
  under the key made from its name, \<open>coordinator_agent\<close>, which is none of the
  initialised keys, so the update is dropped. On a fresh session the turn
  \<open>process('hello there', None)\<close> completes normally and is classified \<open>text_only\<close>;
  afterwards the entry \<open>coordinator\<close> still has the empty \<open>last_decision\<close> and the
  coordinator reads back the empty record as its own state.
\<close>

theorem coordinator_state_not_recorded:
  "fst (process_try answering_env ''hello there'' None initialize_session_state)
     = Inr ''an answer'' \<and>
   snd (process_classify ''hello there'' None) = ''text_only'' \<and>
   get_agent_state ''coordinator''
     (snd (process answering_env ''hello there'' None initialize_session_state))
     ''last_decision'' = Some (VStr []) \<and>
   get_state coordinator_name
     (snd (process answering_env ''hello there'' None initialize_session_state)) = Map.empty"
proof -
  let ?s = "snd (process answering_env ''hello there'' None initialize_session_state)"
  have cls: "process_classify ''hello there'' None = (False, ''text_only'')"
    by (simp add: process_classify_def determine_input_type_def)
  have r: "fst (process_try answering_env ''hello there'' None initialize_session_state)
             = Inr ''an answer''"
    unfolding process_try_returns cls fst_conv snd_conv
    by (simp add: route_request_def text_process_answering)
  have "agent_states ?s ''coordinator'' = agent_states initialize_session_state ''coordinator''"
    by (rule process_coordinator_entry)
  then have c: "get_agent_state ''coordinator'' ?s ''last_decision'' = Some (VStr [])"
    by (simp add: get_agent_state_def initialize_session_state_def initial_agent_states_def)
  have "dom (agent_states ?s) = {''text_agent'', ''vision_agent'', ''coordinator''}"
    by (simp add: initialize_session_state_def dom_initial_agent_states)
  then have "''coordinator_agent'' \<notin> dom (agent_states ?s)" by simp
  then have "agent_states ?s ''coordinator_agent'' = None" by (simp only: domIff not_not)
  then have g: "get_state coordinator_name ?s = Map.empty"
    by (simp add: get_state_def get_agent_state_def state_key_coordinator)
  from r cls c g show ?thesis by simp
qed


section \<open>Failures inside the coordinator\<close>

text \<open>
  The body of the \<open>try\<close> always returns: what the client or the image library raises is
  caught inside the roles and inside \<open>_combine_responses\<close>.
\<close>

lemma process_returns_response:
  "\<exists>response. fst (process_try E user_text image_data s) = Inr response \<and>
              fst (process E user_text image_data s) = response"
  by (simp add: process_try_returns process_completes)

lemma process_except_prefix:
  "fst (process_except e s) = ''Coordinator error: '' @ e"
  by (simp add: process_except_def Let_def)

text \<open>
  C3. The claim asks that \<open>process\<close> always returns a text, and that its handler
  returns the error text and sets the coordinator's state to inactive with
  \<open>last_decision\<close> \<open>error\<close>. With a client whose every call raises, the turn still
  completes normally, its answer being the error text of the text role. Run on a fresh
  session with an exception whose text is \<open>connection reset\<close>, the handler returns the
  text with the coordinator prefix and leaves the whole session as it was: the entry
  \<open>coordinator\<close> is still active and its \<open>last_decision\<close> still empty.
\<close>

theorem coordinator_error_not_recorded:
  "fst (process_try failing_env ''hello there'' None initialize_session_state)
     = Inr ''Error processing text input: quota exceeded'' \<and>
   process_except ''connection reset'' initialize_session_state
     = (''Coordinator error: connection reset'', initialize_session_state) \<and>
   get_agent_state ''coordinator''
     (snd (process_except ''connection reset'' initialize_session_state)) ''active''
     = Some (VBool True) \<and>
   get_agent_state ''coordinator''
     (snd (process_except ''connection reset'' initialize_session_state)) ''last_decision''
     = Some (VStr [])"
proof -
  have "agent_states initialize_session_state ''coordinator_agent'' = None"
    by (simp add: initialize_session_state_def initial_agent_states_def)
  then have "process_except ''connection reset'' initialize_session_state
     = (''Coordinator error: connection reset'', initialize_session_state)"
    by (simp add: process_except_def Let_def update_state_def state_key_coordinator
        update_agent_state_def)
  moreover have "process_classify ''hello there'' None = (False, ''text_only'')"
    by (simp add: process_classify_def determine_input_type_def)
  then have "fst (process_try failing_env ''hello there'' None initialize_session_state)
     = Inr ''Error processing text input: quota exceeded''"
    unfolding process_try_returns by (simp add: route_request_def text_process_failing)
  ultimately show ?thesis
    by (simp add: get_agent_state_def initialize_session_state_def initial_agent_states_def)
qed


section \<open>Turns that use both roles\<close>

lemma turn_events_append: "events s' = events s @ new \<Longrightarrow> turn_events s s' = new"
  by (simp add: turn_events_def)

lemma classified_with_text_has_image:
  "snd (process_classify u i) = ''vision_with_text'' \<Longrightarrow> i \<noteq> None \<and> fst (process_classify u i)"
  by (auto simp: process_classify_def determine_input_type_def Let_def split: if_splits)

lemma enhanced_query_value:
  "enhanced_query v u =
     ''Based on this image analysis: '' @ v @ [NL, NL] @ ''User'' @ [CHR 0x27] @
     ''s additional question: '' @ u"
  by (simp add: enhanced_query_def)

lemma route_with_text:
  "route_request E u i ''vision_with_text'' h s =
     (let s0 = log_action coordinator_name ''Coordinating Multi-Modal Processing''
                    ''Using both Vision and Text agents'' s;
          r1 = vision_process E u i s0;
          r2 = text_process E (enhanced_query (fst r1) u) None (snd r1)
      in combine_responses E (fst r1) (fst r2) u (snd r2))"
  by (simp add: route_request_def Let_def split_beta)

text \<open>
  C4. In a turn classified \<open>vision_with_text\<close> an image is present, and the entries
  into the roles during the turn are exactly two, in this order: the vision role with
  the original text and image, then the text role, without image, with the prompt that
  embeds the vision answer and the original question. The last event of the turn is the
  call of the client with the synthesis prompt built from the two answers.
\<close>

theorem multimodal_call_order:
  assumes "snd (process_classify user_text image_data) = ''vision_with_text''"
  shows
    "let s0 = log_action coordinator_name ''Coordinating Multi-Modal Processing''
                ''Using both Vision and Text agents'' s;
         (vision_answer, s1) = vision_process E user_text image_data s0;
         augmented = ''Based on this image analysis: '' @ vision_answer @ [NL, NL] @
                     ''User'' @ [CHR 0x27] @ ''s additional question: '' @ user_text;
         (text_answer, s2) = text_process E augmented None s1;
         turn = turn_events s (snd (process E user_text image_data s))
     in image_data \<noteq> None \<and>
        filter is_role_entry turn =
          [VisionProcess user_text image_data, TextProcess augmented None] \<and>
        last turn = GenerateText (synthesis_prompt vision_answer text_answer user_text) []"
proof -
  define s0 where "s0 = log_action coordinator_name ''Coordinating Multi-Modal Processing''
                ''Using both Vision and Text agents'' s"
  define r1 where "r1 = vision_process E user_text image_data s0"
  define aug where "aug = enhanced_query (fst r1) user_text"
  define r2 where "r2 = text_process E aug None (snd r1)"
  define fin where "fin = GenerateText (synthesis_prompt (fst r1) (fst r2) user_text) []"
  from assms have img: "image_data \<noteq> None" and h: "fst (process_classify user_text image_data)"
    using classified_with_text_has_image by blast+
  obtain pre where e0: "events s0 = events s @ pre" and p0: "filter is_role_entry pre = []"
    unfolding s0_def by (simp add: log_action_events is_role_entry_def)
  obtain calls where e1: "events (snd r1) = events s0 @ VisionProcess user_text image_data # calls"
    and p1: "filter is_role_entry calls = []"
    unfolding r1_def using vision_process_events by blast
  have e2: "events (snd r2) = events (snd r1) @
      [TextProcess aug None,
       GenerateText (enhance_prompt aug (current_context (snd r1))) (current_context (snd r1))]"
    unfolding r2_def by (rule text_process_events)
  have "events (snd (process E user_text image_data s)) = events (snd r2) @ [fin]"
    unfolding process_events assms route_with_text Let_def
    by (simp add: s0_def r1_def aug_def r2_def fin_def)
  then have ev: "events (snd (process E user_text image_data s)) =
      events s @ (pre @ VisionProcess user_text image_data # calls @
        [TextProcess aug None,
         GenerateText (enhance_prompt aug (current_context (snd r1))) (current_context (snd r1)),
         fin])"
    by (simp add: e0 e1 e2)
  let ?turn = "turn_events s (snd (process E user_text image_data s))"
  have t: "?turn = pre @ VisionProcess user_text image_data # calls @
        [TextProcess aug None,
         GenerateText (enhance_prompt aug (current_context (snd r1))) (current_context (snd r1)),
         fin]"
    by (rule turn_events_append[OF ev])
  have f: "filter is_role_entry ?turn = [VisionProcess user_text image_data, TextProcess aug None]"
    unfolding t by (simp add: p0 p1 is_role_entry_def fin_def)
  have l: "last ?turn = fin" unfolding t by simp
  from img f l show ?thesis
    unfolding Let_def split_beta
    by (simp only: s0_def[symmetric] r1_def[symmetric] enhanced_query_value[symmetric]
        aug_def[symmetric] r2_def[symmetric] fin_def[symmetric] simp_thms)
qed

theorem multimodal_call_order_witness:
  "snd (process_classify ''why does this matter?'' (Some (PILImage 0))) = ''vision_with_text'' \<and>
   filter is_role_entry
     (turn_events initialize_session_state
        (snd (process answering_env ''why does this matter?'' (Some (PILImage 0))
                initialize_session_state))) =
     [VisionProcess ''why does this matter?'' (Some (PILImage 0)),
      TextProcess (''Based on this image analysis: a cat on a mat'' @ [NL, NL] @
                   ''User'' @ [CHR 0x27] @ ''s additional question: why does this matter?'') None]"
  using multimodal_call_order[of "''why does this matter?''" "Some (PILImage 0)"
      initialize_session_state answering_env]
  by (simp add: classify_why Let_def split_beta vision_process_answering)

text \<open>
  C7. A turn classified \<open>vision_with_text\<close> completes normally whatever the synthesis
  call does. When that call raises, the coordinator returns the vision answer and the
  text answer under the headings \<open>Visual Analysis\<close> and \<open>Additional Analysis\<close>; when it
  returns, the coordinator returns its result under the heading
  \<open>Comprehensive Analysis\<close>.
\<close>

theorem synthesis_or_fallback:
  assumes "snd (process_classify user_text image_data) = ''vision_with_text''"
  shows
    "let s0 = log_action coordinator_name ''Coordinating Multi-Modal Processing''
                ''Using both Vision and Text agents'' s;
         (vision_answer, s1) = vision_process E user_text image_data s0;
         (text_answer, s2) = text_process E (enhanced_query vision_answer user_text) None s1
     in fst (process_try E user_text image_data s) = Inr (fst (process E user_text image_data s)) \<and>
        fst (process E user_text image_data s) =
          (case generate_text_response E (client_calls (events s2))
                  (synthesis_prompt vision_answer text_answer user_text) [] of
             Inl e \<Rightarrow> ''**Visual Analysis:**'' @ [NL] @ vision_answer @ [NL, NL] @
                      ''**Additional Analysis:**'' @ [NL] @ text_answer
           | Inr synthesized \<Rightarrow> ''**Comprehensive Analysis:**'' @ [NL, NL] @ synthesized)"
  unfolding process_try_returns process_completes fst_conv assms route_with_text Let_def split_beta
    combine_responses_result
  by (simp add: fallback_combination_def synthesis_banner_def split: sum.splits)

theorem synthesis_or_fallback_witness:
  "snd (process_classify ''why does this matter?'' (Some (PILImage 0))) = ''vision_with_text'' \<and>
   fst (process tiring_env ''why does this matter?'' (Some (PILImage 0)) initialize_session_state)
     = ''**Visual Analysis:**'' @ [NL] @ ''a cat on a mat'' @ [NL, NL] @
       ''**Additional Analysis:**'' @ [NL] @ ''an answer'' \<and>
   fst (process answering_env ''why does this matter?'' (Some (PILImage 0)) initialize_session_state)
     = ''**Comprehensive Analysis:**'' @ [NL, NL] @ ''an answer''"
proof -
  let ?s0 = "log_action coordinator_name ''Coordinating Multi-Modal Processing''
                ''Using both Vision and Text agents'' initialize_session_state"
  let ?s1 = "snd (vision_process tiring_env ''why does this matter?'' (Some (PILImage 0)) ?s0)"
  let ?s2 = "snd (text_process tiring_env
                (enhanced_query ''a cat on a mat'' ''why does this matter?'') None ?s1)"
  have c1: "length (client_calls (events ?s1)) = 1"
    by (simp add: vision_process_tiring initialize_session_state_def)
  then have t: "fst (text_process tiring_env
                (enhanced_query ''a cat on a mat'' ''why does this matter?'') None ?s1)
             = ''an answer''"
    by (simp add: text_process_tiring)
  have c2: "length (client_calls (events ?s2)) = 2"
    by (simp add: text_process_tiring c1)
  then have f: "generate_text_response tiring_env (client_calls (events ?s2)) p [] =
                  Inl ''quota exceeded''" for p
    by (simp add: tiring_env_def)
  show ?thesis
    using synthesis_or_fallback[where user_text = "''why does this matter?''"
        and image_data = "Some (PILImage 0)" and E = tiring_env
        and s = initialize_session_state]
      synthesis_or_fallback[where user_text = "''why does this matter?''"
        and image_data = "Some (PILImage 0)" and E = answering_env
        and s = initialize_session_state]
    unfolding Let_def split_beta classify_why snd_conv
      vision_process_tiring t f vision_process_answering text_process_answering
    by (simp add: answering_env_def)
qed

end
